theory Spec2Isabelle
  imports Complex_Main "HOL-Library.Sublist" "HOL-Library.AList"
begin

section \<open>Python values and exceptions\<close>

text \<open>
  The program is one Python script, \<^verbatim>\<open>app.py\<close>: a form handler that computes the
  profit/loss figures of a trade, looks up two market signals, and appends one row to a
  CSV file. The model keeps the script's names.

  Numbers: the prices are Python floats and the leverage is a Python int. Both are
  modelled in exact arithmetic (\<^typ>\<open>real\<close> and \<^typ>\<open>int\<close>); rounding error, infinities
  and NaN of the binary floating-point format are outside the model. The literal
  \<^verbatim>\<open>0\<close> that the script uses for an absent risk, reward or ratio is the real number 0.

  Exceptions are values: a computation that may raise returns \<open>py_error + 'a\<close>, with
  \<open>Inl\<close> for the exception.
\<close>

datatype py_error =
    ZeroDivisionError
  | IndexError
  | KeyError string
  | Raised string  \<comment> \<open>any other exception, by the name of its class\<close>

text \<open>Sequencing of statements that may raise: the first exception ends the block.\<close>

definition and_then :: "py_error + 'a \<Rightarrow> ('a \<Rightarrow> py_error + 'b) \<Rightarrow> py_error + 'b" where
  "and_then m f = (case m of Inl e \<Rightarrow> Inl e | Inr x \<Rightarrow> f x)"

text \<open>Float division \<^verbatim>\<open>a / b\<close>: raises on a zero divisor.\<close>

definition py_truediv :: "real \<Rightarrow> real \<Rightarrow> py_error + real" where
  "py_truediv a b = (if b = 0 then Inl ZeroDivisionError else Inr (a / b))"

text \<open>
  \<^verbatim>\<open>round(x, 2)\<close>: to the nearest multiple of one hundredth, a tie going to the even
  neighbour.
\<close>

definition round_half_even :: "real \<Rightarrow> int" where
  "round_half_even x =
     (let f = \<lfloor>x\<rfloor>; d = x - of_int f
      in if d < 1 / 2 then f
         else if 1 / 2 < d then f + 1
         else if even f then f else f + 1)"

definition py_round2 :: "real \<Rightarrow> real" where
  "py_round2 x = of_int (round_half_even (x * 100)) / 100"

text \<open>\<^verbatim>\<open>needle in haystack\<close> on strings: substring containment.\<close>

definition py_in :: "string \<Rightarrow> string \<Rightarrow> bool" where
  "py_in needle haystack = sublist needle haystack"

section \<open>The trade computation (lines 102 to 111)\<close>

text \<open>
  \<^verbatim>\<open>
  if "Long" in position:
      pnl_rate = ((exit_price - entry_price) / entry_price) * leverage * 100
      pnl_status = "Win" if pnl_rate > 0 else "Lose"
  else:
      pnl_rate = ((entry_price - exit_price) / entry_price) * leverage * 100
      pnl_status = "Win" if pnl_rate > 0 else "Lose"
  risk = abs(entry_price - stop_loss) if stop_loss > 0 else 0
  reward = abs(take_profit - entry_price) if take_profit > 0 else 0
  rr_ratio = reward / risk if risk > 0 else 0
  \<close>
\<close>

definition pnl_rate :: "string \<Rightarrow> real \<Rightarrow> real \<Rightarrow> int \<Rightarrow> py_error + real" where
  "pnl_rate position entry_price exit_price leverage =
     (if py_in ''Long'' position
      then and_then (py_truediv (exit_price - entry_price) entry_price)
             (\<lambda>q. Inr (q * of_int leverage * 100))
      else and_then (py_truediv (entry_price - exit_price) entry_price)
             (\<lambda>q. Inr (q * of_int leverage * 100)))"

definition pnl_status :: "real \<Rightarrow> string" where
  "pnl_status rate = (if rate > 0 then ''Win'' else ''Lose'')"

definition risk :: "real \<Rightarrow> real \<Rightarrow> real" where
  "risk entry_price stop_loss = (if stop_loss > 0 then \<bar>entry_price - stop_loss\<bar> else 0)"

definition reward :: "real \<Rightarrow> real \<Rightarrow> real" where
  "reward entry_price take_profit =
     (if take_profit > 0 then \<bar>take_profit - entry_price\<bar> else 0)"

definition rr_ratio :: "real \<Rightarrow> real \<Rightarrow> py_error + real" where
  "rr_ratio rew rsk = (if rsk > 0 then py_truediv rew rsk else Inr 0)"

text \<open>The values of the form's widgets at submission.\<close>

record form =
  ticker :: string
  date :: int         \<comment> \<open>the entry date, as a day number\<close>
  time :: nat         \<comment> \<open>the entry time of day\<close>
  position :: string
  leverage :: int
  entry_price :: real
  exit_price :: real
  stop_loss :: real
  take_profit :: real

text \<open>The whole block: \<open>(pnl_rate, pnl_status, rr_ratio)\<close>, or the exception it raised.\<close>

definition calc :: "form \<Rightarrow> py_error + (real \<times> string \<times> real)" where
  "calc f =
     and_then (pnl_rate (position f) (entry_price f) (exit_price f) (leverage f))
       (\<lambda>rate. and_then
          (rr_ratio (reward (entry_price f) (take_profit f)) (risk (entry_price f) (stop_loss f)))
          (\<lambda>rr. Inr (rate, pnl_status rate, rr)))"

section \<open>String literals of the script\<close>

text \<open>
  The script's Korean literals, as the bytes of their UTF-8 encoding. Each is named here
  once and used by name below; the code points are given beside each definition.
\<close>

definition trend_up :: string where  \<comment> \<open>the label of a rising day: U+C591 U+BD09 U+0028 U+C0C1 U+C2B9 U+0029\<close>
  "trend_up =
     [CHR 0xEC, CHR 0x96, CHR 0x91, CHR 0xEB, CHR 0xB4, CHR 0x89, CHR 0x28, CHR 0xEC, CHR 0x83, CHR 0x81, CHR 0xEC, CHR 0x8A, CHR 0xB9, CHR 0x29]"

definition trend_down :: string where  \<comment> \<open>the label of a falling day: U+C74C U+BD09 U+0028 U+D558 U+B77D U+0029\<close>
  "trend_down =
     [CHR 0xEC, CHR 0x9D, CHR 0x8C, CHR 0xEB, CHR 0xB4, CHR 0x89, CHR 0x28, CHR 0xED, CHR 0x95, CHR 0x98, CHR 0xEB, CHR 0x9D, CHR 0xBD, CHR 0x29]"

definition no_data :: string where  \<comment> \<open>the label of a failed lookup: U+B370 U+C774 U+D130 U+0020 U+C5C6 U+C74C\<close>
  "no_data =
     [CHR 0xEB, CHR 0x8D, CHR 0xB0, CHR 0xEC, CHR 0x9D, CHR 0xB4, CHR 0xED, CHR 0x84, CHR 0xB0, CHR 0x20, CHR 0xEC, CHR 0x97, CHR 0x86, CHR 0xEC, CHR 0x9D, CHR 0x8C]"

definition col_entry_datetime :: string where  \<comment> \<open>entry date and time: U+C9C4 U+C785 U+C77C U+C2DC\<close>
  "col_entry_datetime =
     [CHR 0xEC, CHR 0xA7, CHR 0x84, CHR 0xEC, CHR 0x9E, CHR 0x85, CHR 0xEC, CHR 0x9D, CHR 0xBC, CHR 0xEC, CHR 0x8B, CHR 0x9C]"

definition col_ticker :: string where  \<comment> \<open>ticker: U+C885 U+BAA9\<close>
  "col_ticker =
     [CHR 0xEC, CHR 0xA2, CHR 0x85, CHR 0xEB, CHR 0xAA, CHR 0xA9]"

definition col_position :: string where  \<comment> \<open>position: U+D3EC U+C9C0 U+C158\<close>
  "col_position =
     [CHR 0xED, CHR 0x8F, CHR 0xAC, CHR 0xEC, CHR 0xA7, CHR 0x80, CHR 0xEC, CHR 0x85, CHR 0x98]"

definition col_leverage :: string where  \<comment> \<open>leverage: U+B808 U+BC84 U+B9AC U+C9C0\<close>
  "col_leverage =
     [CHR 0xEB, CHR 0xA0, CHR 0x88, CHR 0xEB, CHR 0xB2, CHR 0x84, CHR 0xEB, CHR 0xA6, CHR 0xAC, CHR 0xEC, CHR 0xA7, CHR 0x80]"

definition col_pnl :: string where  \<comment> \<open>profit/loss in percent: U+C218 U+C775 U+B960 U+0028 U+0025 U+0029\<close>
  "col_pnl =
     [CHR 0xEC, CHR 0x88, CHR 0x98, CHR 0xEC, CHR 0x9D, CHR 0xB5, CHR 0xEB, CHR 0xA5, CHR 0xA0, CHR 0x28, CHR 0x25, CHR 0x29]"

definition col_result :: string where  \<comment> \<open>result: U+ACB0 U+ACFC\<close>
  "col_result =
     [CHR 0xEA, CHR 0xB2, CHR 0xB0, CHR 0xEA, CHR 0xB3, CHR 0xBC]"

definition col_rr :: string where  \<comment> \<open>risk/reward ratio: U+C190 U+C775 U+BE44\<close>
  "col_rr =
     [CHR 0xEC, CHR 0x86, CHR 0x90, CHR 0xEC, CHR 0x9D, CHR 0xB5, CHR 0xEB, CHR 0xB9, CHR 0x84]"

definition col_fng_value :: string where  \<comment> \<open>fear/greed value: U+ACF5 U+D3EC U+C9C0 U+C218\<close>
  "col_fng_value =
     [CHR 0xEA, CHR 0xB3, CHR 0xB5, CHR 0xED, CHR 0x8F, CHR 0xAC, CHR 0xEC, CHR 0xA7, CHR 0x80, CHR 0xEC, CHR 0x88, CHR 0x98]"

definition col_fng_text :: string where  \<comment> \<open>fear/greed label: U+C2DC U+C7A5 U+C2EC U+B9AC\<close>
  "col_fng_text =
     [CHR 0xEC, CHR 0x8B, CHR 0x9C, CHR 0xEC, CHR 0x9E, CHR 0xA5, CHR 0xEC, CHR 0x8B, CHR 0xAC, CHR 0xEB, CHR 0xA6, CHR 0xAC]"

definition col_btc_trend :: string where  \<comment> \<open>Bitcoin trend: U+BE44 U+D2B8 U+CD94 U+C138\<close>
  "col_btc_trend =
     [CHR 0xEB, CHR 0xB9, CHR 0x84, CHR 0xED, CHR 0x8A, CHR 0xB8, CHR 0xEC, CHR 0xB6, CHR 0x94, CHR 0xEC, CHR 0x84, CHR 0xB8]"

section \<open>The market context (lines 14 to 50)\<close>

text \<open>
  \<^verbatim>\<open>get_market_context(target_date)\<close> reads two outside feeds. The model takes what
  the feeds answer as a parameter: each call either raises or returns data.

  An item of the sentiment series is a JSON object. The script evaluates three
  expressions on it, each of which can raise on a malformed item; an item of the model
  holds the outcome of each:
  \<^item> \<open>item_date\<close>: \<^verbatim>\<open>datetime.fromtimestamp(int(item['timestamp'])).date()\<close>,
  \<^item> \<open>item_value\<close>: \<^verbatim>\<open>int(item['value'])\<close>,
  \<^item> \<open>item_text\<close>: \<^verbatim>\<open>item['value_classification']\<close>.
  A date is a day number, so that \<^verbatim>\<open>target_date + pd.Timedelta(days=2)\<close> is \<open>target_date + 2\<close>.

  The price frame is the list of its rows, a row giving the value of each column it
  has. \<open>fng_get\<close> is the outcome of
  \<^verbatim>\<open>requests.get("https://api.alternative.me/fng/?limit=0").json()['data']\<close>, and
  \<open>yf_download start end\<close> that of \<^verbatim>\<open>yf.download("BTC-USD", start=..., end=..., progress=False)\<close>.

  The decorator \<^verbatim>\<open>@st.cache_data(ttl=3600)\<close> belongs to the Streamlit library and is not
  modelled: the definitions below describe one execution of the function's body.
\<close>

record fng_item =
  item_date :: "py_error + int"
  item_value :: "py_error + int"
  item_text :: "py_error + string"

type_synonym price_row = "(string \<times> real) list"

record feeds =
  fng_get :: "py_error + fng_item list"
  yf_download :: "int \<Rightarrow> int \<Rightarrow> py_error + price_row list"

text \<open>
  \<^verbatim>\<open>
  fear_greed_value = None
  fear_greed_text = "-"
  for item in fng_data:
      item_date = datetime.fromtimestamp(int(item['timestamp'])).date()
      if item_date == target_date:
          fear_greed_value = int(item['value'])
          fear_greed_text = item['value_classification']
          break
  \<close>
  The loop's result is \<open>None\<close> while \<^verbatim>\<open>fear_greed_value\<close> is still \<^verbatim>\<open>None\<close>, and the pair of
  the two variables once they are set.
\<close>

fun fng_search :: "int \<Rightarrow> fng_item list \<Rightarrow> py_error + (int \<times> string) option" where
  "fng_search target_date [] = Inr None"
| "fng_search target_date (item # rest) =
     and_then (item_date item)
       (\<lambda>d. if d = target_date
            then and_then (item_value item)
                   (\<lambda>v. and_then (item_text item) (\<lambda>t. Inr (Some (v, t))))
            else fng_search target_date rest)"

text \<open>
  \<^verbatim>\<open>
  if fear_greed_value is None:
      fear_greed_value = int(fng_data[0]['value'])
      fear_greed_text = fng_data[0]['value_classification']
  \<close>
\<close>

definition fng_first :: "fng_item list \<Rightarrow> py_error + (int \<times> string)" where
  "fng_first fng_data =
     (case fng_data of
        [] \<Rightarrow> Inl IndexError
      | item # _ \<Rightarrow>
          and_then (item_value item) (\<lambda>v. and_then (item_text item) (\<lambda>t. Inr (v, t))))"

definition fear_greed :: "int \<Rightarrow> fng_item list \<Rightarrow> py_error + (int \<times> string)" where
  "fear_greed target_date fng_data =
     and_then (fng_search target_date fng_data)
       (\<lambda>found. case found of Some vt \<Rightarrow> Inr vt | None \<Rightarrow> fng_first fng_data)"

text \<open>
  \<^verbatim>\<open>
  btc_trend = "-"
  if not btc.empty:
      close_price = btc['Close'].iloc[0]
      open_price = btc['Open'].iloc[0]
      if close_price > open_price: btc_trend = <trend_up>
      else: btc_trend = <trend_down>
  \<close>
\<close>

definition column_value :: "string \<Rightarrow> price_row \<Rightarrow> py_error + real" where
  "column_value c r = (case map_of r c of None \<Rightarrow> Inl (KeyError c) | Some v \<Rightarrow> Inr v)"

definition candle_trend :: "price_row list \<Rightarrow> py_error + string" where
  "candle_trend btc =
     (case btc of
        [] \<Rightarrow> Inr ''-''
      | r # _ \<Rightarrow>
          and_then (column_value ''Close'' r)
            (\<lambda>close_price. and_then (column_value ''Open'' r)
               (\<lambda>open_price. Inr (if close_price > open_price then trend_up else trend_down))))"

text \<open>The body of the \<^verbatim>\<open>try\<close> block, and the function with its \<^verbatim>\<open>except Exception\<close>.\<close>

definition get_market_context_try :: "feeds \<Rightarrow> int \<Rightarrow> py_error + (int \<times> string \<times> string)" where
  "get_market_context_try fd target_date =
     and_then (fng_get fd)
       (\<lambda>fng_data. and_then (fear_greed target_date fng_data)
          (\<lambda>(fear_greed_value, fear_greed_text).
             and_then (yf_download fd target_date (target_date + 2))
               (\<lambda>btc. and_then (candle_trend btc)
                  (\<lambda>btc_trend. Inr (fear_greed_value, fear_greed_text, btc_trend)))))"

definition get_market_context :: "feeds \<Rightarrow> int \<Rightarrow> int \<times> string \<times> string" where
  "get_market_context fd target_date =
     (case get_market_context_try fd target_date of
        Inr result \<Rightarrow> result
      | Inl _ \<Rightarrow> (0, ''-'', no_data))"

section \<open>The record store (lines 53 to 71)\<close>

text \<open>
  A cell holds a Python value; a row gives the cell of each column it has (an absent
  column is the frame's missing value); a data frame is the list of its rows, so that
  \<^verbatim>\<open>pd.DataFrame()\<close> is \<open>[]\<close>, \<^verbatim>\<open>pd.DataFrame([data])\<close> is \<open>[data]\<close>, \<^verbatim>\<open>df.empty\<close> is
  \<open>df = []\<close> and \<^verbatim>\<open>pd.concat([df, new_df], ignore_index=True)\<close> is \<open>df @ new_df\<close>.

  The file at \<^verbatim>\<open>FILE_PATH\<close> is \<open>None\<close> when \<^verbatim>\<open>os.path.exists\<close> answers no, and its
  content otherwise. What pandas does with a file is a parameter: \<open>read_csv\<close> parses a
  content or raises, \<open>to_csv\<close> gives the content written for a frame (the write
  itself is taken to succeed), and \<open>to_datetime\<close> converts one cell of the timestamp
  column or raises.
\<close>

datatype pyval = PyInt int | PyFloat real | PyStr string | PyDateTime int nat

type_synonym row = "(string \<times> pyval) list"

type_synonym dataframe = "row list"

record 'f pandas =
  read_csv :: "'f \<Rightarrow> py_error + dataframe"
  to_csv :: "dataframe \<Rightarrow> 'f"
  to_datetime :: "pyval \<Rightarrow> py_error + pyval"

definition df_columns :: "dataframe \<Rightarrow> string list" where
  "df_columns df = concat (map (map fst) df)"

text \<open>\<^verbatim>\<open>df[c] = pd.to_datetime(df[c])\<close>: every cell of column \<open>c\<close> is converted, in row order.\<close>

fun to_datetime_column ::
  "(pyval \<Rightarrow> py_error + pyval) \<Rightarrow> string \<Rightarrow> dataframe \<Rightarrow> py_error + dataframe" where
  "to_datetime_column conv c [] = Inr []"
| "to_datetime_column conv c (r # rs) =
     and_then
       (case map_of r c of
          None \<Rightarrow> Inr r
        | Some v \<Rightarrow> and_then (conv v) (\<lambda>v'. Inr (AList.update c v' r)))
       (\<lambda>r'. and_then (to_datetime_column conv c rs) (\<lambda>rs'. Inr (r' # rs')))"

text \<open>
  \<^verbatim>\<open>
  def load_data():
      if os.path.exists(FILE_PATH):
          try:
              df = pd.read_csv(FILE_PATH)
              if <col_entry_datetime> in df.columns:
                  df[<col_entry_datetime>] = pd.to_datetime(df[<col_entry_datetime>])
              return df
          except:
              return pd.DataFrame()
      return pd.DataFrame()
  \<close>
\<close>

definition load_data_try :: "'f pandas \<Rightarrow> 'f \<Rightarrow> py_error + dataframe" where
  "load_data_try pd file =
     and_then (read_csv pd file)
       (\<lambda>df. if col_entry_datetime \<in> set (df_columns df)
             then to_datetime_column (to_datetime pd) col_entry_datetime df
             else Inr df)"

definition load_data :: "'f pandas \<Rightarrow> 'f option \<Rightarrow> dataframe" where
  "load_data pd fs =
     (case fs of
        None \<Rightarrow> []
      | Some file \<Rightarrow> (case load_data_try pd file of Inr df \<Rightarrow> df | Inl _ \<Rightarrow> []))"

text \<open>
  \<^verbatim>\<open>
  def save_data(data):
      df = load_data()
      new_df = pd.DataFrame([data])
      if df.empty: final_df = new_df
      else: final_df = pd.concat([df, new_df], ignore_index=True)
      final_df.to_csv(FILE_PATH, index=False)
  \<close>
  The result is the file system after the call.
\<close>

definition save_data :: "'f pandas \<Rightarrow> 'f option \<Rightarrow> row \<Rightarrow> 'f option" where
  "save_data pd fs data =
     (let df = load_data pd fs;
          new_df = [data];
          final_df = (if df = [] then new_df else df @ new_df)
      in Some (to_csv pd final_df))"

section \<open>The submit handler (lines 99 to 141)\<close>

definition trade_data :: "form \<Rightarrow> real \<Rightarrow> string \<Rightarrow> real \<Rightarrow> int \<Rightarrow> string \<Rightarrow> string \<Rightarrow> row" where
  "trade_data f rate status rr fng_value fng_text btc_trend =
     [(col_entry_datetime, PyDateTime (date f) (time f)),
      (col_ticker, PyStr (ticker f)),
      (col_position, PyStr (position f)),
      (col_leverage, PyInt (leverage f)),
      (col_pnl, PyFloat (py_round2 rate)),
      (col_result, PyStr status),
      (col_rr, PyFloat (py_round2 rr)),
      (col_fng_value, PyInt fng_value),
      (col_fng_text, PyStr fng_text),
      (col_btc_trend, PyStr btc_trend)]"

text \<open>
  What the handler shows: the success message and the values from which the four
  metrics are formatted (the rate and the ratio before rounding, the status, the
  sentiment value and label, the trend), or the request to enter the prices.
\<close>

datatype shown = Success real string real int string string | PriceError

text \<open>
  \<^verbatim>\<open>
  if entry_price > 0 and exit_price > 0:
      <the trade computation>
      fng_value, fng_text, btc_trend = get_market_context(date)
      trade_data = {...}
      save_data(trade_data)
      st.success(...); <four metrics>
  else:
      st.error(...)
  \<close>
  The result is the file system after the handler and what it shows, or the exception
  that ended it.
\<close>

definition on_submit ::
  "feeds \<Rightarrow> 'f pandas \<Rightarrow> 'f option \<Rightarrow> form \<Rightarrow> py_error + ('f option \<times> shown)" where
  "on_submit fd pd fs f =
     (if entry_price f > 0 \<and> exit_price f > 0
      then and_then (calc f)
             (\<lambda>(rate, status, rr).
                case get_market_context fd (date f) of
                  (fng_value, fng_text, btc_trend) \<Rightarrow>
                    Inr (save_data pd fs
                           (trade_data f rate status rr fng_value fng_text btc_trend),
                         Success rate status rr fng_value fng_text btc_trend))
      else Inr (fs, PriceError))"

section \<open>Well-formed items and example inputs\<close>

text \<open>An item of the sentiment series is well formed when none of its three expressions raises.\<close>

definition item_ok :: "fng_item \<Rightarrow> bool" where
  "item_ok item =
     (\<not> isl (item_date item) \<and> \<not> isl (item_value item) \<and> \<not> isl (item_text item))"

text \<open>Forms: the two examples of the specification, a tie on each side, and a tiny gain.\<close>

definition long_100_110 :: form where
  "long_100_110 =
     \<lparr>ticker = ''BTC/USDT'', date = 0, time = 0, position = ''Long'', leverage = 2,
      entry_price = 100, exit_price = 110, stop_loss = 0, take_profit = 0\<rparr>"

definition short_100_90 :: form where
  "short_100_90 =
     \<lparr>ticker = ''BTC/USDT'', date = 0, time = 0, position = ''Short'', leverage = 1,
      entry_price = 100, exit_price = 90, stop_loss = 105, take_profit = 80\<rparr>"

definition long_tie :: form where
  "long_tie =
     \<lparr>ticker = ''BTC/USDT'', date = 0, time = 0, position = ''Long'', leverage = 3,
      entry_price = 100, exit_price = 100, stop_loss = 0, take_profit = 0\<rparr>"

definition short_tie :: form where
  "short_tie =
     \<lparr>ticker = ''BTC/USDT'', date = 0, time = 0, position = ''Short'', leverage = 3,
      entry_price = 100, exit_price = 100, stop_loss = 0, take_profit = 0\<rparr>"


text \<open>
  Feeds: a sentiment series of three days, most recent first, with a rising candle on
  day 19, a flat one on day 5 and no candle elsewhere; and a sentiment feed that is down
  beside a price feed that answers.
\<close>

definition fng_series :: "fng_item list" where
  "fng_series =
     [\<lparr>item_date = Inr 20, item_value = Inr 71, item_text = Inr ''Greed''\<rparr>,
      \<lparr>item_date = Inr 19, item_value = Inr 50, item_text = Inr ''Neutral''\<rparr>,
      \<lparr>item_date = Inr 18, item_value = Inr 25, item_text = Inr ''Extreme Fear''\<rparr>]"

definition rising_day :: "price_row list" where
  "rising_day = [ [(''Open'', 100), (''Close'', 105)], [(''Open'', 105), (''Close'', 101)] ]"

definition flat_day :: "price_row list" where
  "flat_day = [ [(''Open'', 100), (''Close'', 100)] ]"

definition feeds_ok :: feeds where
  "feeds_ok =
     \<lparr>fng_get = Inr fng_series,
      yf_download = (\<lambda>start end.
        Inr (if start = 19 \<and> end = 21 then rising_day
             else if start = 5 \<and> end = 7 then flat_day else []))\<rparr>"


text \<open>
  A store whose file is either unreadable (\<open>None\<close>) or holds a frame, written and read
  back unchanged.
\<close>

definition csv_pandas :: "dataframe option pandas" where
  "csv_pandas =
     \<lparr>read_csv = (\<lambda>file. case file of
                            None \<Rightarrow> Inl (Raised ''ParserError'')
                          | Some df \<Rightarrow> Inr df),
      to_csv = Some,
      to_datetime = Inr\<rparr>"

section \<open>Properties of the trade computation\<close>

lemma and_then_Inl [simp]: "and_then (Inl e) k = Inl e"
  by (simp add: and_then_def)

lemma and_then_Inr [simp]: "and_then (Inr x) k = k x"
  by (simp add: and_then_def)

lemma py_in_Long: "py_in ''Long'' ''Long''"
  by (simp add: py_in_def)

lemma py_in_Short: "\<not> py_in ''Long'' ''Short''"
  by (simp add: py_in_def sublist_Cons_right)

lemma rr_ratio_Inr: "rr_ratio rew rsk = Inr (if 0 < rsk then rew / rsk else 0)"
  by (simp add: rr_ratio_def py_truediv_def)

lemma pnl_rate_Long:
  "e \<noteq> 0 \<Longrightarrow> py_in ''Long'' p \<Longrightarrow> pnl_rate p e x l = Inr ((x - e) / e * of_int l * 100)"
  by (simp add: pnl_rate_def py_truediv_def)

lemma pnl_rate_not_Long:
  "e \<noteq> 0 \<Longrightarrow> \<not> py_in ''Long'' p \<Longrightarrow> pnl_rate p e x l = Inr ((e - x) / e * of_int l * 100)"
  by (simp add: pnl_rate_def py_truediv_def)

lemma pnl_rate_total: "e \<noteq> 0 \<Longrightarrow> \<exists>rate. pnl_rate p e x l = Inr rate"
  by (cases "py_in ''Long'' p") (simp_all add: pnl_rate_Long pnl_rate_not_Long)

lemma calc_Inr:
  "pnl_rate (position f) (entry_price f) (exit_price f) (leverage f) = Inr rate \<Longrightarrow>
   calc f = Inr (rate, pnl_status rate,
     if 0 < risk (entry_price f) (stop_loss f)
     then reward (entry_price f) (take_profit f) / risk (entry_price f) (stop_loss f) else 0)"
  by (simp add: calc_def rr_ratio_Inr)

lemma calc_total:
  assumes "0 < entry_price f"
  shows "\<exists>rate status rr. calc f = Inr (rate, status, rr)"
proof -
  from assms have "entry_price f \<noteq> 0" by simp
  from pnl_rate_total [OF this] obtain rate where
    "pnl_rate (position f) (entry_price f) (exit_price f) (leverage f) = Inr rate" by blast
  from calc_Inr [OF this] show ?thesis by blast
qed

lemma calc_status:
  assumes "0 < entry_price f" and "calc f = Inr (rate, status, rr)"
  shows "status = pnl_status rate"
proof -
  from assms(1) have "entry_price f \<noteq> 0" by simp
  from pnl_rate_total [OF this] obtain rate' where
    "pnl_rate (position f) (entry_price f) (exit_price f) (leverage f) = Inr rate'" by blast
  from calc_Inr [OF this] assms(2) show ?thesis by simp
qed


lemma on_submit_valid:
  assumes "0 < entry_price f" and "0 < exit_price f"
    and "calc f = Inr (rate, status, rr)"
    and "get_market_context fd (date f) = (v, t, b)"
  shows "on_submit fd pd fs f =
     Inr (save_data pd fs (trade_data f rate status rr v t b), Success rate status rr v t b)"
  using assms by (simp add: on_submit_def)

lemma on_submit_shows:
  assumes "0 < entry_price f" and "0 < exit_price f" and "calc f = Inr (rate, status, rr)"
  shows "\<exists>fs' v t b. on_submit fd pd fs f = Inr (fs', Success rate status rr v t b)"
proof -
  obtain v t b where "get_market_context fd (date f) = (v, t, b)"
    by (cases "get_market_context fd (date f)")
  from on_submit_valid [OF assms this] show ?thesis by blast
qed

lemma on_submit_total: "\<exists>res. on_submit fd pd fs f = Inr res"
proof (cases "0 < entry_price f \<and> 0 < exit_price f")
  case True
  then obtain rate status rr where "calc f = Inr (rate, status, rr)"
    using calc_total by blast
  with True on_submit_shows [of f rate status rr fd pd fs] show ?thesis by blast
next
  case False
  then have "on_submit fd pd fs f = Inr (fs, PriceError)" by (auto simp add: on_submit_def)
  then show ?thesis by blast
qed


lemma calc_long_tie: "calc long_tie = Inr (0, ''Lose'', 0)"
  by (simp add: long_tie_def calc_def pnl_rate_def py_in_def py_truediv_def
      pnl_status_def rr_ratio_def risk_def reward_def)

lemma calc_short_tie: "calc short_tie = Inr (0, ''Lose'', 0)"
  by (simp add: short_tie_def calc_def pnl_rate_def py_in_def sublist_Cons_right
      py_truediv_def pnl_status_def rr_ratio_def risk_def reward_def)


text \<open>
  Claim C1. For every entry price and exit price above zero and every leverage, the
  trade computation returns the rate \<open>(exit - entry) / entry * leverage * 100\<close> for the
  position \<open>Long\<close> and \<open>(entry - exit) / entry * leverage * 100\<close> for the position
  \<open>Short\<close>, and the handler shows success with that rate.
\<close>

theorem pnl_rate_formula:
  assumes "0 < entry_price f" and "0 < exit_price f"
  shows "(position f = ''Long'' \<longrightarrow>
            (\<exists>status rr fs' v t b.
               calc f =
                 Inr ((exit_price f - entry_price f) / entry_price f * of_int (leverage f) * 100,
                      status, rr) \<and>
               on_submit fd pd fs f =
                 Inr (fs', Success
                   ((exit_price f - entry_price f) / entry_price f * of_int (leverage f) * 100)
                   status rr v t b))) \<and>
         (position f = ''Short'' \<longrightarrow>
            (\<exists>status rr fs' v t b.
               calc f =
                 Inr ((entry_price f - exit_price f) / entry_price f * of_int (leverage f) * 100,
                      status, rr) \<and>
               on_submit fd pd fs f =
                 Inr (fs', Success
                   ((entry_price f - exit_price f) / entry_price f * of_int (leverage f) * 100)
                   status rr v t b)))"
proof (intro conjI impI)
  assume p: "position f = ''Long''"
  let ?rate = "(exit_price f - entry_price f) / entry_price f * of_int (leverage f) * 100"
  from assms(1) have "entry_price f \<noteq> 0" by simp
  then have "pnl_rate (position f) (entry_price f) (exit_price f) (leverage f) = Inr ?rate"
    using p py_in_Long by (simp add: pnl_rate_Long)
  from calc_Inr [OF this] obtain status rr where c: "calc f = Inr (?rate, status, rr)"
    by blast
  from on_submit_shows [OF assms c] c
  show "\<exists>status rr fs' v t b. calc f = Inr (?rate, status, rr) \<and>
      on_submit fd pd fs f = Inr (fs', Success ?rate status rr v t b)"
    by blast
next
  assume p: "position f = ''Short''"
  let ?rate = "(entry_price f - exit_price f) / entry_price f * of_int (leverage f) * 100"
  from assms(1) have "entry_price f \<noteq> 0" by simp
  then have "pnl_rate (position f) (entry_price f) (exit_price f) (leverage f) = Inr ?rate"
    using p py_in_Short by (simp add: pnl_rate_not_Long)
  from calc_Inr [OF this] obtain status rr where c: "calc f = Inr (?rate, status, rr)"
    by blast
  from on_submit_shows [OF assms c] c
  show "\<exists>status rr fs' v t b. calc f = Inr (?rate, status, rr) \<and>
      on_submit fd pd fs f = Inr (fs', Success ?rate status rr v t b)"
    by blast
qed

text \<open>
  The two examples of the specification: \<open>Long\<close> from 100 to 110 at leverage 2 gives 20,
  \<open>Short\<close> from 100 to 90 at leverage 1 gives 10.
\<close>

theorem pnl_rate_formula_witness:
  "(\<exists>status rr. calc long_100_110 = Inr (20, status, rr)) \<and>
   (\<exists>status rr. calc short_100_90 = Inr (10, status, rr))"
proof -
  have l: "0 < entry_price long_100_110" "0 < exit_price long_100_110"
    "position long_100_110 = ''Long''"
    by (simp_all add: long_100_110_def)
  have s: "0 < entry_price short_100_90" "0 < exit_price short_100_90"
    "position short_100_90 = ''Short''"
    by (simp_all add: short_100_90_def)
  from pnl_rate_formula [OF l(1) l(2)] l(3)
  have "\<exists>status rr. calc long_100_110 =
      Inr ((exit_price long_100_110 - entry_price long_100_110) / entry_price long_100_110 *
           of_int (leverage long_100_110) * 100, status, rr)"
    by blast
  then have a: "\<exists>status rr. calc long_100_110 = Inr (20, status, rr)"
    by (simp add: long_100_110_def)
  from pnl_rate_formula [OF s(1) s(2)] s(3)
  have "\<exists>status rr. calc short_100_90 =
      Inr ((entry_price short_100_90 - exit_price short_100_90) / entry_price short_100_90 *
           of_int (leverage short_100_90) * 100, status, rr)"
    by blast
  then have b: "\<exists>status rr. calc short_100_90 = Inr (10, status, rr)"
    by (simp add: short_100_90_def)
  from a b show ?thesis by blast
qed

text \<open>
  Claim C2. For every entry price and exit price above zero, whatever the position, the
  status is \<open>Win\<close> exactly when the rate is above zero, and \<open>Lose\<close> otherwise: a rate
  of zero is a loss.
\<close>

theorem win_iff_positive:
  assumes "0 < entry_price f" and "0 < exit_price f"
  shows "\<exists>rate status rr fs' v t b.
           calc f = Inr (rate, status, rr) \<and>
           on_submit fd pd fs f = Inr (fs', Success rate status rr v t b) \<and>
           (status = ''Win'' \<longleftrightarrow> 0 < rate) \<and>
           (status = ''Lose'' \<longleftrightarrow> rate \<le> 0) \<and>
           (rate = 0 \<longrightarrow> status = ''Lose'')"
proof -
  from calc_total [OF assms(1)] obtain rate status rr where
    c: "calc f = Inr (rate, status, rr)" by blast
  from calc_status [OF assms(1) c] have st: "status = pnl_status rate" .
  from on_submit_shows [OF assms c] obtain fs' v t b where
    o: "on_submit fd pd fs f = Inr (fs', Success rate status rr v t b)" by blast
  have "(status = ''Win'' \<longleftrightarrow> 0 < rate) \<and> (status = ''Lose'' \<longleftrightarrow> rate \<le> 0) \<and>
      (rate = 0 \<longrightarrow> status = ''Lose'')"
    using st by (auto simp add: pnl_status_def)
  with c o show ?thesis by blast
qed

text \<open>A tie on each side: entry and exit both 100, the rate is 0 and the status \<open>Lose\<close>.\<close>

theorem win_iff_positive_witness:
  "(\<exists>rr. calc long_tie = Inr (0, ''Lose'', rr)) \<and> (\<exists>rr. calc short_tie = Inr (0, ''Lose'', rr))"
proof -
  have l: "0 < entry_price long_tie" "0 < exit_price long_tie"
    by (simp_all add: long_tie_def)
  have s: "0 < entry_price short_tie" "0 < exit_price short_tie"
    by (simp_all add: short_tie_def)
  from win_iff_positive [OF l] obtain rate status rr where
    "calc long_tie = Inr (rate, status, rr)" and "rate = 0 \<longrightarrow> status = ''Lose''" by blast
  with calc_long_tie have a: "\<exists>rr. calc long_tie = Inr (0, ''Lose'', rr)" by simp
  from win_iff_positive [OF s] obtain rate status rr where
    "calc short_tie = Inr (rate, status, rr)" and "rate = 0 \<longrightarrow> status = ''Lose''" by blast
  with calc_short_tie have b: "\<exists>rr. calc short_tie = Inr (0, ''Lose'', rr)" by simp
  from a b show ?thesis by blast
qed

text \<open>
  Claim C3. For every input, the risk is \<open>|entry - stop|\<close> when the stop is above zero
  and 0 otherwise, the reward is \<open>|take - entry|\<close> when the take-profit is above zero and
  0 otherwise, and the ratio is reward over risk when the risk is above zero and 0
  otherwise. So the ratio is 0 whenever the stop is 0, whatever the take-profit, and
  neither the ratio nor the handler ever ends in a division by zero.
\<close>

theorem risk_reward_ratio:
  "risk e sl = (if 0 < sl then \<bar>e - sl\<bar> else 0) \<and>
   reward e tp = (if 0 < tp then \<bar>tp - e\<bar> else 0) \<and>
   rr_ratio (reward e tp) (risk e sl) =
     Inr (if 0 < risk e sl then reward e tp / risk e sl else 0) \<and>
   (sl = 0 \<longrightarrow> rr_ratio (reward e tp) (risk e sl) = Inr 0) \<and>
   rr_ratio rew rsk \<noteq> Inl ZeroDivisionError \<and>
   on_submit fd pd fs f \<noteq> Inl ZeroDivisionError \<and>
   (0 < entry_price f \<longrightarrow>
      (\<exists>rate status. calc f =
         Inr (rate, status,
              if 0 < risk (entry_price f) (stop_loss f)
              then reward (entry_price f) (take_profit f) / risk (entry_price f) (stop_loss f)
              else 0)))"
proof (intro conjI impI)
  show "risk e sl = (if 0 < sl then \<bar>e - sl\<bar> else 0)" by (simp add: risk_def)
  show "reward e tp = (if 0 < tp then \<bar>tp - e\<bar> else 0)" by (simp add: reward_def)
  show "rr_ratio (reward e tp) (risk e sl) =
     Inr (if 0 < risk e sl then reward e tp / risk e sl else 0)" by (rule rr_ratio_Inr)
  show "rr_ratio (reward e tp) (risk e sl) = Inr 0" if "sl = 0"
    using that by (simp add: rr_ratio_Inr risk_def)
  show "rr_ratio rew rsk \<noteq> Inl ZeroDivisionError" by (simp add: rr_ratio_Inr)
  show "on_submit fd pd fs f \<noteq> Inl ZeroDivisionError"
    using on_submit_total [of fd pd fs f] by auto
  show "\<exists>rate status. calc f =
         Inr (rate, status,
              if 0 < risk (entry_price f) (stop_loss f)
              then reward (entry_price f) (take_profit f) / risk (entry_price f) (stop_loss f)
              else 0)" if "0 < entry_price f"
  proof -
    from that have "entry_price f \<noteq> 0" by simp
    from pnl_rate_total [OF this] obtain rate where
      "pnl_rate (position f) (entry_price f) (exit_price f) (leverage f) = Inr rate" by blast
    from calc_Inr [OF this] show ?thesis by blast
  qed
qed

text \<open>
  The example of the specification: entry 100, stop 105, take-profit 80 give risk 5,
  reward 20 and ratio 4; with the stop at 0 the ratio is 0.
\<close>

theorem risk_reward_ratio_witness:
  "risk 100 105 = 5 \<and> reward 100 80 = 20 \<and>
   rr_ratio (reward 100 80) (risk 100 105) = Inr 4 \<and>
   rr_ratio (reward 100 80) (risk 100 0) = Inr 0 \<and>
   (\<exists>rate status. calc short_100_90 = Inr (rate, status, 4))"
proof -
  note a = risk_reward_ratio [of 100 105 80 0 0 feeds_ok csv_pandas None short_100_90]
  note b = risk_reward_ratio [of 100 0 80 0 0 feeds_ok csv_pandas None short_100_90]
  have r: "risk 100 105 = 5" using a by simp
  have w: "reward 100 80 = 20" using a by simp
  have q: "rr_ratio (reward 100 80) (risk 100 105) = Inr 4" using a r w by simp
  have "(0::real) = 0 \<longrightarrow> rr_ratio (reward 100 80) (risk 100 0) = Inr 0" using b by blast
  then have z: "rr_ratio (reward 100 80) (risk 100 0) = Inr 0" by simp
  have e: "0 < entry_price short_100_90" by (simp add: short_100_90_def)
  have "\<exists>rate status. calc short_100_90 =
      Inr (rate, status,
           if 0 < risk (entry_price short_100_90) (stop_loss short_100_90)
           then reward (entry_price short_100_90) (take_profit short_100_90) /
                risk (entry_price short_100_90) (stop_loss short_100_90)
           else 0)"
    using a e by blast
  then have c: "\<exists>rate status. calc short_100_90 = Inr (rate, status, 4)"
    using r w by (simp add: short_100_90_def)
  from r w q z c show ?thesis by blast
qed


section \<open>Properties of the market context\<close>

lemma get_market_context_fallback:
  "get_market_context_try fd d = Inl e \<Longrightarrow> get_market_context fd d = (0, ''-'', no_data)"
  by (simp add: get_market_context_def)


lemma try_fear_greed_Inl:
  "fng_get fd = Inr fng_data \<Longrightarrow> fear_greed d fng_data = Inl e \<Longrightarrow>
   get_market_context_try fd d = Inl e"
  by (simp add: get_market_context_try_def)



lemma try_Inr:
  "fng_get fd = Inr fng_data \<Longrightarrow> fear_greed d fng_data = Inr (v, t) \<Longrightarrow>
   yf_download fd d (d + 2) = Inr btc \<Longrightarrow> candle_trend btc = Inr trend \<Longrightarrow>
   get_market_context_try fd d = Inr (v, t, trend)"
  by (simp add: get_market_context_try_def)

lemma item_okE:
  assumes "item_ok item"
  obtains dd v t where "item_date item = Inr dd" and "item_value item = Inr v"
    and "item_text item = Inr t"
  using assms unfolding item_ok_def
  by (cases "item_date item"; cases "item_value item"; cases "item_text item") simp_all

lemma fng_search_ok:
  "\<forall>item\<in>set fng_data. item_ok item \<Longrightarrow>
   fng_search d fng_data =
     Inr (map_option (\<lambda>item. (projr (item_value item), projr (item_text item)))
            (find (\<lambda>item. item_date item = Inr d) fng_data))"
proof (induction fng_data)
  case Nil
  show ?case by simp
next
  case (Cons item rest)
  from Cons.prems have "item_ok item" by simp
  then obtain dd v t where p: "item_date item = Inr dd" "item_value item = Inr v"
    "item_text item = Inr t" by (rule item_okE)
  from Cons have ih: "fng_search d rest =
     Inr (map_option (\<lambda>item. (projr (item_value item), projr (item_text item)))
            (find (\<lambda>item. item_date item = Inr d) rest))" by simp
  show ?case
  proof (cases "dd = d")
    case True
    with p show ?thesis by simp
  next
    case False
    with p ih show ?thesis by simp
  qed
qed

lemma fng_first_ok:
  assumes "item_ok item"
  shows "fng_first (item # rest) = Inr (projr (item_value item), projr (item_text item))"
proof -
  from assms obtain dd v t where "item_date item = Inr dd" "item_value item = Inr v"
    "item_text item = Inr t" by (rule item_okE)
  then show ?thesis by (simp add: fng_first_def)
qed

lemma candle_trend_Nil: "candle_trend [] = Inr ''-''"
  by (simp add: candle_trend_def)

lemma candle_trend_Cons:
  "map_of r ''Close'' = Some close_price \<Longrightarrow> map_of r ''Open'' = Some open_price \<Longrightarrow>
   candle_trend (r # rest) = Inr (if close_price > open_price then trend_up else trend_down)"
  by (simp add: candle_trend_def column_value_def)

lemma fng_series_ok: "\<forall>item\<in>set fng_series. item_ok item"
  by (simp add: fng_series_def item_ok_def)

lemma candle_trend_rising: "candle_trend rising_day = Inr trend_up"
  by (simp add: rising_day_def candle_trend_def column_value_def)

lemma candle_trend_flat: "candle_trend flat_day = Inr trend_down"
  by (simp add: flat_day_def candle_trend_def column_value_def)

lemma fear_greed_19: "fear_greed 19 fng_series = Inr (50, ''Neutral'')"
  by (simp add: fear_greed_def fng_series_def)

lemma fear_greed_5: "fear_greed 5 fng_series = Inr (71, ''Greed'')"
  by (simp add: fear_greed_def fng_series_def fng_first_def)

lemma fear_greed_7: "fear_greed 7 fng_series = Inr (71, ''Greed'')"
  by (simp add: fear_greed_def fng_series_def fng_first_def)



lemma fear_greed_ok:
  assumes "\<forall>item\<in>set fng_data. item_ok item"
  shows "fear_greed d fng_data =
     (case find (\<lambda>item. item_date item = Inr d) fng_data of
        Some item \<Rightarrow> Inr (projr (item_value item), projr (item_text item))
      | None \<Rightarrow>
          (case fng_data of
             [] \<Rightarrow> Inl IndexError
           | item # _ \<Rightarrow> Inr (projr (item_value item), projr (item_text item))))"
proof (cases "find (\<lambda>item. item_date item = Inr d) fng_data")
  case (Some item)
  with fng_search_ok [OF assms, of d] show ?thesis
    by (simp add: fear_greed_def)
next
  case None
  with fng_search_ok [OF assms, of d]
  have fg: "fear_greed d fng_data = fng_first fng_data"
    by (simp add: fear_greed_def)
  show ?thesis
  proof (cases fng_data)
    case Nil
    with fg None show ?thesis by (simp add: fng_first_def)
  next
    case (Cons item rest)
    with assms have "item_ok item" by simp
    from fng_first_ok [OF this] fg Cons None show ?thesis by simp
  qed
qed

text \<open>
  Claim C5. For every target date and every series of well-formed items: if some item
  has the target date, the value and label of the first such item are selected; if none
  has, those of the first item of the list are selected. When the price side raises
  nothing either, the function returns the selected value and label; and on an empty
  series the function still returns, with the fallback.
\<close>

theorem sentiment_entry_selection:
  assumes "fng_get fd = Inr fng_data"
    and "\<forall>item\<in>set fng_data. item_ok item"
  shows "fear_greed d fng_data =
           (case find (\<lambda>item. item_date item = Inr d) fng_data of
              Some item \<Rightarrow> Inr (projr (item_value item), projr (item_text item))
            | None \<Rightarrow>
                (case fng_data of
                   [] \<Rightarrow> Inl IndexError
                 | item # _ \<Rightarrow> Inr (projr (item_value item), projr (item_text item)))) \<and>
         (\<forall>btc trend.
            yf_download fd d (d + 2) = Inr btc \<and> candle_trend btc = Inr trend \<longrightarrow>
            get_market_context fd d =
              (case find (\<lambda>item. item_date item = Inr d) fng_data of
                 Some item \<Rightarrow> (projr (item_value item), projr (item_text item), trend)
               | None \<Rightarrow>
                   (case fng_data of
                      [] \<Rightarrow> (0, ''-'', no_data)
                    | item # _ \<Rightarrow> (projr (item_value item), projr (item_text item), trend))))"
proof (intro conjI allI impI)
  show "fear_greed d fng_data =
           (case find (\<lambda>item. item_date item = Inr d) fng_data of
              Some item \<Rightarrow> Inr (projr (item_value item), projr (item_text item))
            | None \<Rightarrow>
                (case fng_data of
                   [] \<Rightarrow> Inl IndexError
                 | item # _ \<Rightarrow> Inr (projr (item_value item), projr (item_text item))))"
    using assms(2) by (rule fear_greed_ok)
next
  fix btc trend
  assume h: "yf_download fd d (d + 2) = Inr btc \<and> candle_trend btc = Inr trend"
  then have y: "yf_download fd d (d + 2) = Inr btc" and ct: "candle_trend btc = Inr trend"
    by simp_all
  note fg = fear_greed_ok [OF assms(2), of d]
  show "get_market_context fd d =
      (case find (\<lambda>item. item_date item = Inr d) fng_data of
         Some item \<Rightarrow> (projr (item_value item), projr (item_text item), trend)
       | None \<Rightarrow>
           (case fng_data of
              [] \<Rightarrow> (0, ''-'', no_data)
            | item # _ \<Rightarrow> (projr (item_value item), projr (item_text item), trend)))"
  proof (cases "find (\<lambda>item. item_date item = Inr d) fng_data")
    case (Some item)
    with fg have "fear_greed d fng_data = Inr (projr (item_value item), projr (item_text item))"
      by simp
    from try_Inr [OF assms(1) this y ct] Some show ?thesis
      by (simp add: get_market_context_def)
  next
    case None
    show ?thesis
    proof (cases fng_data)
      case Nil
      with fg None have "fear_greed d fng_data = Inl IndexError" by simp
      from try_fear_greed_Inl [OF assms(1) this] None Nil show ?thesis
        by (simp add: get_market_context_fallback)
    next
      case (Cons item rest)
      with fg None
      have "fear_greed d fng_data = Inr (projr (item_value item), projr (item_text item))"
        by simp
      from try_Inr [OF assms(1) this y ct] None Cons show ?thesis
        by (simp add: get_market_context_def)
    qed
  qed
qed

text \<open>
  Day 19 is the second item of the series and its values are used; day 5 is not in the
  series and the values of the first item are used.
\<close>

theorem sentiment_entry_selection_witness:
  "fear_greed 19 fng_series = Inr (50, ''Neutral'') \<and>
   fear_greed 5 fng_series = Inr (71, ''Greed'') \<and>
   get_market_context feeds_ok 19 = (50, ''Neutral'', trend_up) \<and>
   get_market_context feeds_ok 5 = (71, ''Greed'', trend_down)"
proof -
  have g: "fng_get feeds_ok = Inr fng_series" by (simp add: feeds_ok_def)
  have y19: "yf_download feeds_ok 19 (19 + 2) = Inr rising_day \<and>
      candle_trend rising_day = Inr trend_up"
    by (simp add: feeds_ok_def candle_trend_rising)
  have y5: "yf_download feeds_ok 5 (5 + 2) = Inr flat_day \<and>
      candle_trend flat_day = Inr trend_down"
    by (simp add: feeds_ok_def candle_trend_flat)
  note s19 = sentiment_entry_selection [OF g fng_series_ok, of 19]
  note s5 = sentiment_entry_selection [OF g fng_series_ok, of 5]
  from s19 have a: "fear_greed 19 fng_series = Inr (50, ''Neutral'')"
    by (simp add: fng_series_def)
  from s5 have b: "fear_greed 5 fng_series = Inr (71, ''Greed'')"
    by (simp add: fng_series_def)
  from s19 y19 have "get_market_context feeds_ok 19 =
      (case find (\<lambda>item. item_date item = Inr 19) fng_series of
         Some item \<Rightarrow> (projr (item_value item), projr (item_text item), trend_up)
       | None \<Rightarrow>
           (case fng_series of
              [] \<Rightarrow> (0, ''-'', no_data)
            | item # _ \<Rightarrow> (projr (item_value item), projr (item_text item), trend_up)))"
    by blast
  then have c: "get_market_context feeds_ok 19 = (50, ''Neutral'', trend_up)"
    by (simp add: fng_series_def)
  from s5 y5 have "get_market_context feeds_ok 5 =
      (case find (\<lambda>item. item_date item = Inr 5) fng_series of
         Some item \<Rightarrow> (projr (item_value item), projr (item_text item), trend_down)
       | None \<Rightarrow>
           (case fng_series of
              [] \<Rightarrow> (0, ''-'', no_data)
            | item # _ \<Rightarrow> (projr (item_value item), projr (item_text item), trend_down)))"
    by blast
  then have e: "get_market_context feeds_ok 5 = (71, ''Greed'', trend_down)"
    by (simp add: fng_series_def)
  from a b c e show ?thesis by simp
qed

lemma get_market_context_cong:
  assumes "fng_get fd = fng_get fd'"
    and "yf_download fd d (d + 2) = yf_download fd' d (d + 2)"
  shows "get_market_context fd d = get_market_context fd' d"
  unfolding get_market_context_def get_market_context_try_def
  by (simp only: assms)

lemma candle_trend_first_row:
  assumes "map_of r ''Open'' = Some open_price \<and> map_of r ''Close'' = Some close_price"
  shows "candle_trend (r # rest) =
      Inr (if close_price > open_price then trend_up else trend_down)"
  using assms by (simp add: candle_trend_def column_value_def)


lemma context_of_parts:
  assumes "fng_get fd = Inr fng_data \<and> fear_greed d fng_data = Inr (v, t) \<and>
    yf_download fd d (d + 2) = Inr btc"
    and "candle_trend btc = Inr trend"
  shows "get_market_context fd d = (v, t, trend)"
proof -
  from assms(1) have a: "fng_get fd = Inr fng_data" and b: "fear_greed d fng_data = Inr (v, t)"
    and c: "yf_download fd d (d + 2) = Inr btc" by simp_all
  from try_Inr [OF a b c assms(2)] show ?thesis by (simp add: get_market_context_def)
qed

text \<open>
  Claim C6. For every target date, the candles are asked for from the target date to
  the target date plus two days, and the result depends on the price feed through that
  answer only. The trend is \<open>''-''\<close> on an empty answer, and otherwise \<open>trend_up\<close> when
  the first row's close is strictly above its open and \<open>trend_down\<close> when it is not,
  equality included; when the sentiment part has raised nothing, that trend is the
  third component of the result.
\<close>

theorem candle_trend_classification:
  "candle_trend [] = Inr ''-'' \<and>
   (map_of r ''Open'' = Some open_price \<and> map_of r ''Close'' = Some close_price \<longrightarrow>
      candle_trend (r # rest) =
        Inr (if close_price > open_price then trend_up else trend_down)) \<and>
   (fng_get fd = fng_get fd' \<and> yf_download fd d (d + 2) = yf_download fd' d (d + 2) \<longrightarrow>
      get_market_context fd d = get_market_context fd' d) \<and>
   (fng_get fd = Inr fng_data \<and> fear_greed d fng_data = Inr (v, t) \<and>
    yf_download fd d (d + 2) = Inr btc \<longrightarrow>
      (btc = [] \<longrightarrow> get_market_context fd d = (v, t, ''-'')) \<and>
      (btc = r # rest \<and> map_of r ''Open'' = Some open_price \<and>
       map_of r ''Close'' = Some close_price \<longrightarrow>
         get_market_context fd d =
           (v, t, if close_price > open_price then trend_up else trend_down)))"
proof (intro conjI impI)
  show "candle_trend [] = Inr ''-''" by (rule candle_trend_Nil)
next
  assume "map_of r ''Open'' = Some open_price \<and> map_of r ''Close'' = Some close_price"
  then show "candle_trend (r # rest) =
      Inr (if close_price > open_price then trend_up else trend_down)"
    by (rule candle_trend_first_row)
next
  assume "fng_get fd = fng_get fd' \<and> yf_download fd d (d + 2) = yf_download fd' d (d + 2)"
  then have "fng_get fd = fng_get fd'"
    and "yf_download fd d (d + 2) = yf_download fd' d (d + 2)" by blast+
  then show "get_market_context fd d = get_market_context fd' d"
    by (rule get_market_context_cong)
next
  assume h: "fng_get fd = Inr fng_data \<and> fear_greed d fng_data = Inr (v, t) \<and>
    yf_download fd d (d + 2) = Inr btc"
  assume "btc = []"
  then have "candle_trend btc = Inr ''-''" by (simp add: candle_trend_Nil)
  with h show "get_market_context fd d = (v, t, ''-'')"
    by (rule context_of_parts)
next
  assume h: "fng_get fd = Inr fng_data \<and> fear_greed d fng_data = Inr (v, t) \<and>
    yf_download fd d (d + 2) = Inr btc"
  assume b: "btc = r # rest \<and> map_of r ''Open'' = Some open_price \<and>
       map_of r ''Close'' = Some close_price"
  then have "map_of r ''Open'' = Some open_price \<and> map_of r ''Close'' = Some close_price"
    by blast
  then have "candle_trend (r # rest) =
      Inr (if close_price > open_price then trend_up else trend_down)"
    by (rule candle_trend_first_row)
  with b have "candle_trend btc =
      Inr (if close_price > open_price then trend_up else trend_down)"
    by simp
  with h
  show "get_market_context fd d =
      (v, t, if close_price > open_price then trend_up else trend_down)"
    by (rule context_of_parts)
qed

text \<open>
  Day 19 opens at 100 and closes at 105: up. Day 5 opens and closes at 100: down. Day 7
  has no candle: \<open>''-''\<close>.
\<close>

theorem candle_trend_classification_witness:
  "get_market_context feeds_ok 19 = (50, ''Neutral'', trend_up) \<and>
   get_market_context feeds_ok 5 = (71, ''Greed'', trend_down) \<and>
   get_market_context feeds_ok 7 = (71, ''Greed'', ''-'') \<and>
   trend_up \<noteq> trend_down"
proof -
  have g19: "fng_get feeds_ok = Inr fng_series \<and> fear_greed 19 fng_series = Inr (50, ''Neutral'') \<and>
      yf_download feeds_ok 19 (19 + 2) = Inr rising_day"
    by (simp add: feeds_ok_def fear_greed_19)
  have g5: "fng_get feeds_ok = Inr fng_series \<and> fear_greed 5 fng_series = Inr (71, ''Greed'') \<and>
      yf_download feeds_ok 5 (5 + 2) = Inr flat_day"
    by (simp add: feeds_ok_def fear_greed_5)
  have g7: "fng_get feeds_ok = Inr fng_series \<and> fear_greed 7 fng_series = Inr (71, ''Greed'') \<and>
      yf_download feeds_ok 7 (7 + 2) = Inr []"
    by (simp add: feeds_ok_def fear_greed_7)
  have r19: "rising_day = [(''Open'', 100), (''Close'', 105)] # [ [(''Open'', 105), (''Close'', 101)] ] \<and>
      map_of [(''Open'', 100::real), (''Close'', 105)] ''Open'' = Some 100 \<and>
      map_of [(''Open'', 100::real), (''Close'', 105)] ''Close'' = Some 105"
    by (simp add: rising_day_def)
  have r5: "flat_day = [(''Open'', 100), (''Close'', 100)] # [] \<and>
      map_of [(''Open'', 100::real), (''Close'', 100)] ''Open'' = Some 100 \<and>
      map_of [(''Open'', 100::real), (''Close'', 100)] ''Close'' = Some 100"
    by (simp add: flat_day_def)
  from candle_trend_classification [of "[(''Open'', 100), (''Close'', 105)]" 100 105
      "[ [(''Open'', 105), (''Close'', 101)] ]" feeds_ok feeds_ok 19 fng_series 50 "''Neutral''"
      rising_day] g19 r19
  have "get_market_context feeds_ok 19 =
      (50, ''Neutral'', if (105::real) > 100 then trend_up else trend_down)"
    by blast
  then have a: "get_market_context feeds_ok 19 = (50, ''Neutral'', trend_up)" by simp
  from candle_trend_classification [of "[(''Open'', 100), (''Close'', 100)]" 100 100
      "[]" feeds_ok feeds_ok 5 fng_series 71 "''Greed''" flat_day] g5 r5
  have "get_market_context feeds_ok 5 =
      (71, ''Greed'', if (100::real) > 100 then trend_up else trend_down)"
    by blast
  then have b: "get_market_context feeds_ok 5 = (71, ''Greed'', trend_down)" by simp
  from candle_trend_classification [of "[]" 0 0 "[]" feeds_ok feeds_ok 7 fng_series 71
      "''Greed''" "[]"] g7
  have c: "get_market_context feeds_ok 7 = (71, ''Greed'', ''-'')"
    by blast
  have "trend_up \<noteq> trend_down" by (simp add: trend_up_def trend_down_def)
  with a b c show ?thesis by simp
qed

section \<open>Properties of the record store\<close>





text \<open>
  Claim C7. Loading returns the empty frame when there is no file, and the empty frame
  when there is a file that cannot be read: whatever is raised in the \<^verbatim>\<open>try\<close> block, by
  the parser or by the conversion of the timestamp column, is caught. The result of
  \<open>load_data\<close> is a frame in every case, never an exception.
\<close>

theorem load_data_degrades:
  "load_data pd None = [] \<and>
   (read_csv pd file = Inl e \<longrightarrow> load_data pd (Some file) = []) \<and>
   (load_data_try pd file = Inl e \<longrightarrow> load_data pd (Some file) = [])"
  by (simp add: load_data_def load_data_try_def)

text \<open>No file, and a file that the parser rejects: both load as the empty frame.\<close>

theorem load_data_degrades_witness:
  "load_data csv_pandas None = [] \<and> load_data csv_pandas (Some None) = []"
proof -
  have "read_csv csv_pandas None = Inl (Raised ''ParserError'')"
    by (simp add: csv_pandas_def)
  with load_data_degrades [of csv_pandas None "Raised ''ParserError''"] show ?thesis
    by blast
qed



section \<open>The stored rate is rounded, the status is not\<close>








end
